theory Spec2Isabelle
  imports Complex_Main
begin

section \<open>Values of the training loop of \<^verbatim>\<open>train.py\<close>\<close>

text \<open>
  Exceptions of the Python source are values. Only the exceptions that the code of
  \<^verbatim>\<open>Trainer\<close> itself can raise are listed, together with \<open>RuntimeError\<close> for a
  failing model call.
\<close>

datatype error = IndexError | ValueError | AttributeError | ZeroDivisionError | RuntimeError

text \<open>
  Loss slots are floating-point numbers. Rounding is not modelled (finite values are
  reals), but a division of a tensor or an array by zero is: it raises nothing and yields
  \<open>inf\<close> or \<open>nan\<close>, which are both \<open>NonFinite\<close> here. Every operation the source
  applies to a loss slot keeps a non-finite value non-finite.
\<close>

datatype fval = Fin real | NonFinite

definition fdiv :: "real \<Rightarrow> int \<Rightarrow> fval" where
  "fdiv v n = (if n = 0 then NonFinite else Fin (v / real_of_int n))"

fun fl_div :: "fval \<Rightarrow> int \<Rightarrow> fval" where
  "fl_div (Fin v) n = fdiv v n"
| "fl_div NonFinite n = NonFinite"

fun fl_add :: "fval \<Rightarrow> fval \<Rightarrow> fval" where
  "fl_add (Fin a) (Fin b) = Fin (a + b)"
| "fl_add _ _ = NonFinite"

fun fl_scale :: "fval \<Rightarrow> real \<Rightarrow> fval" where
  "fl_scale (Fin v) w = Fin (v * w)"
| "fl_scale NonFinite w = NonFinite"

definition vadd :: "fval list \<Rightarrow> fval list \<Rightarrow> fval list" where
  "vadd a b = map (\<lambda>(u, v). fl_add u v) (zip a b)"

definition vdiv :: "fval list \<Rightarrow> int \<Rightarrow> fval list" where
  "vdiv a n = map (\<lambda>v. fl_div v n) a"

definition vsum :: "fval list \<Rightarrow> fval" where
  "vsum a = foldl fl_add (Fin 0) a"

definition zeros :: "nat \<Rightarrow> fval list" where
  "zeros n = replicate n (Fin 0)"

subsection \<open>Tensors\<close>

text \<open>
  A tensor is its shape and its elements, read by index. The training code only slices
  tensors, reads their shape and hands them to the model and the criteria. The batches of
  the source have rank 3 (\<open>B, C, T\<close>); the operations below are the ones the source
  applies to them and to their items of rank 2.
\<close>

record tensor =
  shape :: "nat list"
  el :: "nat list \<Rightarrow> real"

text \<open>A bound \<open>k\<close> of a Python slice over an axis of extent \<open>n\<close>.\<close>

definition slice_bound :: "nat \<Rightarrow> int \<Rightarrow> nat" where
  "slice_bound n k = (if k < 0 then nat (max 0 (int n + k)) else min n (nat k))"

definition shift_last :: "nat \<Rightarrow> nat list \<Rightarrow> nat list" where
  "shift_last lo idx = (if idx = [] then [] else butlast idx @ [last idx + lo])"

text \<open>\<^verbatim>\<open>x[..., a:b]\<close>\<close>

definition slice_last :: "int \<Rightarrow> int \<Rightarrow> tensor \<Rightarrow> tensor" where
  "slice_last a b x =
     (let n = last (shape x); lo = slice_bound n a; hi = slice_bound n b
      in \<lparr>shape = butlast (shape x) @ [hi - lo], el = (\<lambda>idx. el x (shift_last lo idx))\<rparr>)"

text \<open>\<^verbatim>\<open>x[..., :T]\<close>\<close>

definition slice_to :: "int \<Rightarrow> tensor \<Rightarrow> tensor" where
  "slice_to T x = \<lparr>shape = butlast (shape x) @ [slice_bound (last (shape x)) T], el = el x\<rparr>"

text \<open>\<^verbatim>\<open>x[n:]\<close>\<close>

definition drop0 :: "nat \<Rightarrow> tensor \<Rightarrow> tensor" where
  "drop0 n x =
     \<lparr>shape = (hd (shape x) - n) # tl (shape x),
      el = (\<lambda>idx. case idx of [] \<Rightarrow> el x [] | i # r \<Rightarrow> el x ((i + n) # r))\<rparr>"

text \<open>\<^verbatim>\<open>x[k]\<close>, and the items that iterating over \<open>x\<close> yields.\<close>

definition select0 :: "nat \<Rightarrow> tensor \<Rightarrow> tensor" where
  "select0 k x = \<lparr>shape = tl (shape x), el = (\<lambda>idx. el x (k # idx))\<rparr>"

definition unbind :: "tensor \<Rightarrow> tensor list" where
  "unbind x = map (\<lambda>k. select0 k x) [0..<hd (shape x)]"

subsection \<open>Criteria\<close>

text \<open>
  A criterion is an object of \<^verbatim>\<open>torch.nn\<close> built with \<^verbatim>\<open>reduction='sum'\<close>: a
  function of the output and the target to one number. Which criteria are configured is
  decided by \<^verbatim>\<open>hp.criterion_names\<close>, so the list is a parameter.
\<close>

type_synonym criterion = "tensor \<Rightarrow> tensor \<Rightarrow> real"

text \<open>
  The sum-reduced elementwise criteria (\<^verbatim>\<open>L1Loss\<close> with \<open>f a b = \<bar>a - b\<bar>\<close>,
  \<^verbatim>\<open>MSELoss\<close> with \<open>f a b = (a - b)\<^sup>2\<close>) on two tensors of one shape.
\<close>

fun indices :: "nat list \<Rightarrow> nat list list" where
  "indices [] = [[]]"
| "indices (n # ns) = concat (map (\<lambda>i. map ((#) i) (indices ns)) [0..<n])"

definition sum_loss :: "(real \<Rightarrow> real \<Rightarrow> real) \<Rightarrow> criterion" where
  "sum_loss f out y = (\<Sum>idx\<leftarrow>indices (shape y). f (el out idx) (el y idx))"

definition l1_loss :: criterion where
  "l1_loss = sum_loss (\<lambda>a b. \<bar>a - b\<bar>)"


section \<open>\<^verbatim>\<open>Trainer._calc_loss\<close>\<close>

text \<open>
  \<^verbatim>\<open>hp.weight_loss\<close> is the list \<open>ws\<close>. Besides the loss vector, the functions return
  the index of the criterion of every criterion call they made, in the order of the calls,
  also when an exception ends the computation.
\<close>

text \<open>The loop of the fast path, over \<^verbatim>\<open>enumerate(self.criterions)\<close>.\<close>

fun fast_loop ::
  "real list \<Rightarrow> tensor \<Rightarrow> tensor \<Rightarrow> int \<Rightarrow> (nat \<times> criterion) list \<Rightarrow> fval list \<Rightarrow> nat list
     \<Rightarrow> (error + fval list) \<times> nat list" where
  "fast_loop ws y out T0 [] loss calls = (Inr loss, calls)"
| "fast_loop ws y out T0 ((i, crit) # rest) loss calls =
     (if length ws \<le> i then (Inl IndexError, calls)
      else if ws ! i = 0 then fast_loop ws y out T0 rest loss calls
      else fast_loop ws y out T0 rest
             (loss[i := fdiv (ws ! i * crit out y) T0]) (calls @ [i]))"

text \<open>
  The inner loop of the ragged path, over \<^verbatim>\<open>zip(T_ys, y, output)\<close>:
  \<^verbatim>\<open>loss[i] += criterion(item_out[..., :T], item_y[..., :T]) / int(T)\<close>.
\<close>

fun ragged_items :: "criterion \<Rightarrow> fval \<Rightarrow> (int \<times> tensor \<times> tensor) list \<Rightarrow> fval" where
  "ragged_items crit acc [] = acc"
| "ragged_items crit acc ((T, item_y, item_out) # rest) =
     ragged_items crit
       (fl_add acc (fdiv (crit (slice_to T item_out) (slice_to T item_y)) T)) rest"

fun ragged_loop ::
  "real list \<Rightarrow> tensor \<Rightarrow> tensor \<Rightarrow> int list \<Rightarrow> (nat \<times> criterion) list \<Rightarrow> fval list \<Rightarrow> nat list
     \<Rightarrow> (error + fval list) \<times> nat list" where
  "ragged_loop ws y out T_ys [] loss calls = (Inr loss, calls)"
| "ragged_loop ws y out T_ys ((i, crit) # rest) loss calls =
     (if length ws \<le> i then (Inl IndexError, calls)
      else if ws ! i = 0 then ragged_loop ws y out T_ys rest loss calls
      else ragged_loop ws y out T_ys rest
             (loss[i := fl_scale
                 (ragged_items crit (loss ! i) (zip T_ys (zip (unbind y) (unbind out))))
                 (ws ! i)])
             (calls @ replicate (length (zip T_ys (zip (unbind y) (unbind out)))) i))"

definition calc_loss_fast ::
  "real list \<Rightarrow> criterion list \<Rightarrow> tensor \<Rightarrow> tensor \<Rightarrow> int list \<Rightarrow> (error + fval list) \<times> nat list" where
  "calc_loss_fast ws crits y out T_ys =
     fast_loop ws y out (hd T_ys) (enumerate 0 crits) (zeros (length crits)) []"

definition calc_loss_ragged ::
  "real list \<Rightarrow> criterion list \<Rightarrow> tensor \<Rightarrow> tensor \<Rightarrow> int list \<Rightarrow> (error + fval list) \<times> nat list" where
  "calc_loss_ragged ws crits y out T_ys =
     ragged_loop ws y out T_ys (enumerate 0 crits) (zeros (length crits)) []"

text \<open>
  \<^verbatim>\<open>(T_ys == T_ys[0]).all()\<close> reads \<^verbatim>\<open>T_ys[0]\<close>, which raises \<open>IndexError\<close> on an empty
  array.
\<close>

definition calc_loss_log ::
  "real list \<Rightarrow> criterion list \<Rightarrow> tensor \<Rightarrow> tensor \<Rightarrow> int list \<Rightarrow> (error + fval list) \<times> nat list" where
  "calc_loss_log ws crits y out T_ys =
     (if T_ys = [] then (Inl IndexError, [])
      else if list_all (\<lambda>T. T = hd T_ys) T_ys then calc_loss_fast ws crits y out T_ys
      else calc_loss_ragged ws crits y out T_ys)"

definition calc_loss ::
  "real list \<Rightarrow> criterion list \<Rightarrow> tensor \<Rightarrow> tensor \<Rightarrow> int list \<Rightarrow> error + fval list" where
  "calc_loss ws crits y out T_ys = fst (calc_loss_log ws crits y out T_ys)"

section \<open>\<^verbatim>\<open>Trainer.train\<close> and \<^verbatim>\<open>Trainer.validate\<close>\<close>

text \<open>
  The hyperparameters \<^verbatim>\<open>hp\<close> come from a module that is not part of the source file;
  the fields the training code reads are a record.
\<close>

record hparams =
  l_target :: int
  l_input :: int
  weight_loss :: "real list"
  batch_size :: int
  n_epochs :: nat
  period_save_state :: int
  criterion_names :: "string list"

datatype mode = Train | Eval

text \<open>
  What the trainer does to its collaborators (optimizer, scheduler, progress bar, writer)
  is recorded as a list of events, in order.
\<close>

datatype event =
    ZeroGrad
  | ModelCall mode
  | Backward
  | OptStep
  | SchedStep real
  | Postfix "fval list"
  | AddScalar string fval nat
  | AddScalarOf string nat string fval nat
  | WriteOne nat
  | SaveState nat
  | WriterClose

text \<open>
  The model, the optimizer and the scheduler are external. The model's parameters and the
  optimizer's state are a value of type \<open>'m\<close>; a model call may raise; the backward pass
  followed by \<^verbatim>\<open>optimizer.step()\<close> maps the parameters and the window to new
  parameters; \<^verbatim>\<open>scheduler.step\<close> sets the learning rate inside them.
\<close>

record 'm env =
  forward :: "'m \<Rightarrow> mode \<Rightarrow> tensor \<Rightarrow> error + tensor"
  opt_step :: "'m \<Rightarrow> tensor \<Rightarrow> tensor \<Rightarrow> int list \<Rightarrow> 'm"
  sched_step :: "'m \<Rightarrow> real \<Rightarrow> 'm"
  criterions :: "criterion list"

record 'm tstate =
  params :: 'm
  mode :: mode
  events :: "event list"

text \<open>
  A batch as \<^verbatim>\<open>_pre\<close> returns it (moved and normalised by the dataset's objects, which
  are not in the source file) with \<^verbatim>\<open>data['T_ys']\<close>; a loader is its batches and the
  length of its dataset.
\<close>

record batch =
  data_x :: tensor
  data_y :: tensor
  data_T_ys :: "int list"

record loader =
  batches :: "batch list"
  dataset_len :: nat

text \<open>The variables of \<^verbatim>\<open>train\<close> that the window loop reads and writes.\<close>

record tvars =
  i_first :: nat
  loss_t :: "fval list option"
  avg_loss :: "fval list"

text \<open>\<^verbatim>\<open>range(0, y.shape[-1], hp.l_target)\<close>\<close>

definition window_starts :: "nat \<Rightarrow> int \<Rightarrow> error + nat list" where
  "window_starts T_max l =
     (if l = 0 then Inl ValueError
      else if l < 0 then Inr []
      else Inr (map (\<lambda>k. k * nat l) [0..<(T_max + nat l - 1) div nat l]))"

text \<open>
  \<^verbatim>\<open>while i_first < y.shape[0] and t >= T_ys[i_first]: i_first += 1\<close>, with \<open>B\<close> for
  \<^verbatim>\<open>y.shape[0]\<close>.
\<close>

function advance_i_first :: "nat \<Rightarrow> int list \<Rightarrow> nat \<Rightarrow> nat \<Rightarrow> error + nat" where
  "advance_i_first B T_ys t i =
     (if i < B then
        (if length T_ys \<le> i then Inl IndexError
         else if T_ys ! i \<le> int t then advance_i_first B T_ys t (Suc i)
         else Inr i)
      else Inr i)"
  by pat_completeness auto
termination
  by (relation "measure (\<lambda>(B, T_ys, t, i). B - i)") auto

declare advance_i_first.simps [simp del]

text \<open>\<^verbatim>\<open>np.clip(T_ys[i_first:] - t, a_min=None, a_max=hp.l_target)\<close>\<close>

definition seg_T_ys :: "int list \<Rightarrow> nat \<Rightarrow> nat \<Rightarrow> int \<Rightarrow> int list" where
  "seg_T_ys T_ys i t l = map (\<lambda>T. min (T - int t) l) (drop i T_ys)"

text \<open>The window loop of one batch, over the window starts that are left.\<close>

fun window_loop ::
  "'m env \<Rightarrow> hparams \<Rightarrow> tensor \<Rightarrow> tensor \<Rightarrow> int list \<Rightarrow> nat list \<Rightarrow> tvars \<Rightarrow> 'm tstate
     \<Rightarrow> error option \<times> tvars \<times> 'm tstate" where
  "window_loop E hp x y T_ys [] v s = (None, v, s)"
| "window_loop E hp x y T_ys (t # ts) v s =
     (let s1 = s\<lparr>events := events s @ [ZeroGrad]\<rparr> in
      (case advance_i_first (hd (shape y)) T_ys t (i_first v) of
        Inl e \<Rightarrow> (Some e, v, s1)
      | Inr i \<Rightarrow>
          let v1 = v\<lparr>i_first := i\<rparr>;
              seg_y = slice_last (int t) (int t + l_target hp) (drop0 i y)
          in if last (shape seg_y) < 5 then (None, v1, s1)
             else
               let seg_x = slice_last (int t) (int t + l_input hp) (drop0 i x);
                   sT = seg_T_ys T_ys i t (l_target hp);
                   s2 = s1\<lparr>events := events s1 @ [ModelCall (mode s1)]\<rparr>
               in (case forward E (params s1) (mode s1) seg_x of
                     Inl e \<Rightarrow> (Some e, v1, s2)
                   | Inr out0 \<Rightarrow>
                       let output = slice_to (int (last (shape seg_y))) out0
                       in (case calc_loss (weight_loss hp) (criterions E) seg_y output sT of
                             Inl e \<Rightarrow> (Some e, v1, s2)
                           | Inr loss \<Rightarrow>
                               window_loop E hp x y T_ys ts
                                 (v1\<lparr>loss_t := Some loss,
                                     avg_loss := vadd (avg_loss v1) loss\<rparr>)
                                 (s2\<lparr>params := opt_step E (params s2) seg_x seg_y sT,
                                     events := events s2 @ [Backward, OptStep]\<rparr>)))))"

text \<open>
  The body of the loop over the batches: the window loop, the scheduler step and the
  progress report. \<^verbatim>\<open>i_iter * hp.batch_size / n_train_data\<close> divides Python numbers,
  which raises on zero; \<^verbatim>\<open>loss_t.cpu()\<close> raises when \<^verbatim>\<open>loss_t\<close> is still \<^verbatim>\<open>None\<close>.
\<close>

definition train_batch ::
  "'m env \<Rightarrow> hparams \<Rightarrow> nat \<Rightarrow> nat \<Rightarrow> nat \<Rightarrow> batch \<Rightarrow> fval list \<Rightarrow> 'm tstate
     \<Rightarrow> error option \<times> fval list \<times> 'm tstate" where
  "train_batch E hp n_train_data epoch i_iter data avg s =
     (case window_starts (last (shape (data_y data))) (l_target hp) of
        Inl e \<Rightarrow> (Some e, avg, s)
      | Inr ts \<Rightarrow>
          (case window_loop E hp (data_x data) (data_y data) (data_T_ys data) ts
                  \<lparr>i_first = 0, loss_t = None, avg_loss = avg\<rparr> s of
             (Some e, v, s1) \<Rightarrow> (Some e, avg_loss v, s1)
           | (None, v, s1) \<Rightarrow>
               if n_train_data = 0 then (Some ZeroDivisionError, avg_loss v, s1)
               else
                 let pos = real epoch
                       + real i_iter * real_of_int (batch_size hp) / real n_train_data;
                     s2 = s1\<lparr>params := sched_step E (params s1) pos,
                             events := events s1 @ [SchedStep pos]\<rparr>
                 in (case loss_t v of
                       None \<Rightarrow> (Some AttributeError, avg_loss v, s2)
                     | Some loss \<Rightarrow>
                         (None, avg_loss v,
                          s2\<lparr>events := events s2
                               @ [Postfix (vdiv loss (int (length (data_T_ys data))))]\<rparr>))))"

fun train_batches ::
  "'m env \<Rightarrow> hparams \<Rightarrow> nat \<Rightarrow> nat \<Rightarrow> (nat \<times> batch) list \<Rightarrow> fval list \<Rightarrow> 'm tstate
     \<Rightarrow> error option \<times> fval list \<times> 'm tstate" where
  "train_batches E hp n_train_data epoch [] avg s = (None, avg, s)"
| "train_batches E hp n_train_data epoch ((i_iter, data) # rest) avg s =
     (case train_batch E hp n_train_data epoch i_iter data avg s of
        (Some e, avg1, s1) \<Rightarrow> (Some e, avg1, s1)
      | (None, avg1, s1) \<Rightarrow> train_batches E hp n_train_data epoch rest avg1 s1)"

text \<open>
  The scalars written for an averaged loss vector, as both \<^verbatim>\<open>train\<close> and
  \<^verbatim>\<open>validate\<close> write them: the sum under the tag and, with more than one criterion,
  every slot under the tag, its number and the name of its criterion.
\<close>

definition loss_scalars :: "string \<Rightarrow> hparams \<Rightarrow> nat \<Rightarrow> fval list \<Rightarrow> nat \<Rightarrow> event list" where
  "loss_scalars tag hp n_crit avg epoch =
     AddScalar tag (vsum avg) epoch
     # (if 1 < n_crit
        then map (\<lambda>(i, n, ll). AddScalarOf tag (i + 1) n ll epoch)
               (enumerate 0 (zip (criterion_names hp) avg))
        else [])"

subsection \<open>\<^verbatim>\<open>Trainer.validate\<close>\<close>

text \<open>
  \<^verbatim>\<open>_post_one\<close> reads \<^verbatim>\<open>output[0, :, :Ts[0]]\<close>, which raises on an output of
  rank below 3 or without samples; what is written is the writer's business.
\<close>

fun validate_batches ::
  "'m env \<Rightarrow> hparams \<Rightarrow> nat \<Rightarrow> (nat \<times> batch) list \<Rightarrow> fval list \<Rightarrow> 'm tstate
     \<Rightarrow> error option \<times> fval list \<times> 'm tstate" where
  "validate_batches E hp epoch [] avg s = (None, avg, s)"
| "validate_batches E hp epoch ((i_iter, data) # rest) avg s =
     (let s1 = s\<lparr>events := events s @ [ModelCall (mode s)]\<rparr> in
      (case forward E (params s) (mode s) (data_x data) of
        Inl e \<Rightarrow> (Some e, avg, s1)
      | Inr output \<Rightarrow>
          (case calc_loss (weight_loss hp) (criterions E) (data_y data) output
                  (data_T_ys data) of
             Inl e \<Rightarrow> (Some e, avg, s1)
           | Inr loss \<Rightarrow>
               let avg1 = vadd avg loss;
                   s2 = s1\<lparr>events := events s1
                          @ [Postfix (vdiv loss (int (length (data_T_ys data))))]\<rparr>
               in if i_iter = 0 then
                    (if length (shape output) < 3 \<or> hd (shape output) = 0
                     then (Some IndexError, avg1, s2)
                     else validate_batches E hp epoch rest avg1
                            (s2\<lparr>events := events s2 @ [WriteOne epoch]\<rparr>))
                  else validate_batches E hp epoch rest avg1 s2)))"

definition validate ::
  "'m env \<Rightarrow> hparams \<Rightarrow> loader \<Rightarrow> nat \<Rightarrow> 'm tstate \<Rightarrow> (error + fval list) \<times> 'm tstate" where
  "validate E hp ld epoch s =
     (let s0 = s\<lparr>mode := Eval\<rparr> in
      case validate_batches E hp epoch (enumerate 0 (batches ld))
             (zeros (length (criterions E))) s0 of
        (Some e, avg, s1) \<Rightarrow> (Inl e, s1)
      | (None, avg, s1) \<Rightarrow>
          let avg1 = vdiv avg (int (dataset_len ld));
              s2 = s1\<lparr>events := events s1
                     @ loss_scalars ''loss/valid'' hp (length (criterions E)) avg1 epoch\<rparr>
          in (Inr avg1, s2\<lparr>mode := Train\<rparr>))"

subsection \<open>The epochs of \<^verbatim>\<open>Trainer.train\<close>\<close>

text \<open>
  One epoch: the batches, \<^verbatim>\<open>avg_loss /= n_train_data\<close>, the scalars, the validation
  and the periodic save. \<^verbatim>\<open>epoch % hp.period_save_state\<close> raises on a period of zero.
\<close>

definition train_epoch ::
  "'m env \<Rightarrow> hparams \<Rightarrow> loader \<Rightarrow> loader \<Rightarrow> nat \<Rightarrow> fval list \<Rightarrow> 'm tstate
     \<Rightarrow> error option \<times> fval list \<times> 'm tstate" where
  "train_epoch E hp loader_train loader_valid epoch avg s =
     (case train_batches E hp (dataset_len loader_train) epoch
             (enumerate 0 (batches loader_train)) avg s of
        (Some e, avg1, s1) \<Rightarrow> (Some e, avg1, s1)
      | (None, avg1, s1) \<Rightarrow>
          let avg2 = vdiv avg1 (int (dataset_len loader_train));
              s2 = s1\<lparr>events := events s1
                     @ loss_scalars ''loss/train'' hp (length (criterions E)) avg2 epoch\<rparr>
          in (case validate E hp loader_valid epoch s2 of
                (Inl e, s3) \<Rightarrow> (Some e, avg2, s3)
              | (Inr _, s3) \<Rightarrow>
                  if period_save_state hp = 0 then (Some ZeroDivisionError, avg2, s3)
                  else if int epoch mod period_save_state hp = period_save_state hp - 1
                  then (None, avg2, s3\<lparr>events := events s3 @ [SaveState epoch]\<rparr>)
                  else (None, avg2, s3)))"

fun train_epochs ::
  "'m env \<Rightarrow> hparams \<Rightarrow> loader \<Rightarrow> loader \<Rightarrow> nat list \<Rightarrow> fval list \<Rightarrow> 'm tstate
     \<Rightarrow> error option \<times> fval list \<times> 'm tstate" where
  "train_epochs E hp loader_train loader_valid [] avg s = (None, avg, s)"
| "train_epochs E hp loader_train loader_valid (epoch # rest) avg s =
     (case train_epoch E hp loader_train loader_valid epoch avg s of
        (Some e, avg1, s1) \<Rightarrow> (Some e, avg1, s1)
      | (None, avg1, s1) \<Rightarrow> train_epochs E hp loader_train loader_valid rest avg1 s1)"

text \<open>
  \<^verbatim>\<open>train\<close>: \<^verbatim>\<open>avg_loss\<close> is created before the loop over the epochs
  \<^verbatim>\<open>range(first_epoch, hp.n_epochs)\<close>; the writer is closed after it.
\<close>

definition train ::
  "'m env \<Rightarrow> hparams \<Rightarrow> loader \<Rightarrow> loader \<Rightarrow> nat \<Rightarrow> 'm tstate \<Rightarrow> error option \<times> 'm tstate" where
  "train E hp loader_train loader_valid first_epoch s =
     (case train_epochs E hp loader_train loader_valid [first_epoch..<n_epochs hp]
             (zeros (length (criterions E))) s of
        (Some e, avg, s1) \<Rightarrow> (Some e, s1)
      | (None, avg, s1) \<Rightarrow> (None, s1\<lparr>events := events s1 @ [WriterClose]\<rparr>))"


section \<open>Example data\<close>

text \<open>A tensor of a given shape with one value everywhere.\<close>

definition const_tensor :: "nat list \<Rightarrow> real \<Rightarrow> tensor" where
  "const_tensor shp c = \<lparr>shape = shp, el = (\<lambda>idx. c)\<rparr>"

text \<open>
  A model that returns its input, and one whose call raises; an optimizer and a scheduler
  without state; the absolute error as the only criterion, with weight 1.
\<close>

definition echo_env :: "unit env" where
  "echo_env = \<lparr>forward = (\<lambda>p m x. Inr x), opt_step = (\<lambda>p x y T. p),
     sched_step = (\<lambda>p pos. p), criterions = [l1_loss]\<rparr>"

definition failing_env :: "unit env" where
  "failing_env = \<lparr>forward = (\<lambda>p m x. Inl RuntimeError), opt_step = (\<lambda>p x y T. p),
     sched_step = (\<lambda>p pos. p), criterions = [l1_loss]\<rparr>"

definition hp_example :: "int \<Rightarrow> nat \<Rightarrow> hparams" where
  "hp_example l n = \<lparr>l_target = l, l_input = l, weight_loss = [1], batch_size = 2,
     n_epochs = n, period_save_state = 10, criterion_names = [''L1Loss'']\<rparr>"

text \<open>A batch of inputs 1 and targets 0 with the given lengths, padded to \<open>T_max\<close>.\<close>

definition batch_example :: "nat \<Rightarrow> int list \<Rightarrow> batch" where
  "batch_example T_max Ts =
     \<lparr>data_x = const_tensor [length Ts, 1, T_max] 1,
      data_y = const_tensor [length Ts, 1, T_max] 0, data_T_ys = Ts\<rparr>"

definition state0 :: "unit tstate" where
  "state0 = \<lparr>params = (), mode = Train, events = []\<rparr>"

text \<open>The values written under the tag of the training loss, with their epochs.\<close>

fun train_scalars :: "event list \<Rightarrow> (nat \<times> fval) list" where
  "train_scalars [] = []"
| "train_scalars (AddScalar tag v epoch # evs) =
     (if tag = ''loss/train'' then (epoch, v) # train_scalars evs else train_scalars evs)"
| "train_scalars (_ # evs) = train_scalars evs"

section \<open>Evaluation\<close>

text \<open>The equations that evaluate the loss computation on concrete tensors.\<close>

lemmas ev = calc_loss_def calc_loss_log_def calc_loss_fast_def calc_loss_ragged_def
  zeros_def enumerate_eq_zip unbind_def select0_def slice_to_def slice_bound_def
  l1_loss_def sum_loss_def const_tensor_def fdiv_def
  upt_rec [of _ "numeral _"] upt_rec [of _ "Suc _"] upt_rec [of _ 1]

text \<open>The equations that evaluate the training loop on the example data.\<close>

lemmas ev_train = ev echo_env_def failing_env_def hp_example_def batch_example_def state0_def
  window_starts_def advance_i_first.simps seg_T_ys_def slice_last_def drop0_def shift_last_def
  train_batch_def vadd_def vdiv_def vsum_def loss_scalars_def validate_def train_epoch_def
  train_def Let_def

section \<open>Properties of \<^verbatim>\<open>_calc_loss\<close>\<close>

subsection \<open>Criteria of weight zero\<close>

lemma fast_loop_zero:
  "ws ! i = 0 \<Longrightarrow> i \<notin> set calls \<Longrightarrow>
   i \<notin> set (snd (fast_loop ws y out T0 ics loss calls)) \<and>
   (\<forall>loss'. fst (fast_loop ws y out T0 ics loss calls) = Inr loss' \<longrightarrow>
      length loss' = length loss \<and> loss' ! i = loss ! i)"
proof (induction ics arbitrary: loss calls)
  case Nil
  then show ?case by simp
next
  case (Cons p ics)
  obtain j crit where p: "p = (j, crit)" by (cases p)
  show ?case
  proof (cases "length ws \<le> j")
    case True
    with Cons.prems p show ?thesis by simp
  next
    case False
    show ?thesis
    proof (cases "ws ! j = 0")
      case True
      with False p Cons.IH [OF Cons.prems] show ?thesis by simp
    next
      case nz: False
      with Cons.prems have ji: "j \<noteq> i" by auto
      with Cons.prems have "i \<notin> set (calls @ [j])" by simp
      from Cons.IH [OF Cons.prems(1) this, of "loss[j := fdiv (ws ! j * crit out y) T0]"]
      show ?thesis using False nz p ji by simp
    qed
  qed
qed

lemma ragged_loop_zero:
  "ws ! i = 0 \<Longrightarrow> i \<notin> set calls \<Longrightarrow>
   i \<notin> set (snd (ragged_loop ws y out T_ys ics loss calls)) \<and>
   (\<forall>loss'. fst (ragged_loop ws y out T_ys ics loss calls) = Inr loss' \<longrightarrow>
      length loss' = length loss \<and> loss' ! i = loss ! i)"
proof (induction ics arbitrary: loss calls)
  case Nil
  then show ?case by simp
next
  case (Cons p ics)
  obtain j crit where p: "p = (j, crit)" by (cases p)
  show ?case
  proof (cases "length ws \<le> j")
    case True
    with Cons.prems p show ?thesis by simp
  next
    case False
    show ?thesis
    proof (cases "ws ! j = 0")
      case True
      with False p Cons.IH [OF Cons.prems] show ?thesis by simp
    next
      case nz: False
      with Cons.prems have ji: "j \<noteq> i" by auto
      let ?n = "length (zip T_ys (zip (unbind y) (unbind out)))"
      from ji Cons.prems have "i \<notin> set (calls @ replicate ?n j)" by auto
      from Cons.IH [OF Cons.prems(1) this,
          of "loss[j := fl_scale (ragged_items crit (loss ! j)
                 (zip T_ys (zip (unbind y) (unbind out)))) (ws ! j)]"]
      show ?thesis using False nz p ji by simp
    qed
  qed
qed

text \<open>
  Claim C8. A criterion whose configured weight is exactly zero is never called by the
  loss computation, on the fast path or on the ragged one, whether the computation returns
  or raises; and when the computation returns, the slot of that criterion in the loss
  vector is exactly 0.
\<close>

theorem zero_weight_criterion_skipped:
  assumes "i < length crits" and "i < length ws" and "ws ! i = 0"
  shows "i \<notin> set (snd (calc_loss_log ws crits y out T_ys)) \<and>
         (\<forall>loss. calc_loss ws crits y out T_ys = Inr loss \<longrightarrow>
            i < length loss \<and> loss ! i = Fin 0)"
  using assms
    fast_loop_zero [of ws i "[]" y out "hd T_ys" "enumerate 0 crits" "zeros (length crits)"]
    ragged_loop_zero [of ws i "[]" y out T_ys "enumerate 0 crits" "zeros (length crits)"]
  by (simp add: calc_loss_def calc_loss_log_def calc_loss_fast_def calc_loss_ragged_def
      zeros_def)

theorem zero_weight_criterion_skipped_witness:
  "(0::nat) < length [l1_loss, l1_loss] \<and> (0::nat) < length [0::real, 1] \<and>
   [0::real, 1] ! 0 = 0 \<and>
   0 \<notin> set (snd (calc_loss_log [0, 1] [l1_loss, l1_loss]
            (const_tensor [2, 1, 3] 0) (const_tensor [2, 1, 3] 1) [3, 2])) \<and>
   (\<exists>loss. calc_loss [0, 1] [l1_loss, l1_loss]
             (const_tensor [2, 1, 3] 0) (const_tensor [2, 1, 3] 1) [3, 2] = Inr loss \<and>
      0 < length loss \<and> loss ! 0 = Fin 0)"
  using zero_weight_criterion_skipped [of 0 "[l1_loss, l1_loss]" "[0, 1]"
      "const_tensor [2, 1, 3] 0" "const_tensor [2, 1, 3] 1" "[3, 2]"]
  by (simp add: ev)

section \<open>Properties of the window loop\<close>

subsection \<open>The active-range cursor\<close>








subsection \<open>The clipped lengths of a window\<close>




subsection \<open>When the loss computation raises\<close>

lemma fast_loop_Inl:
  "fst (fast_loop ws y out T0 ics loss calls) = Inl e \<longleftrightarrow>
     e = IndexError \<and> (\<exists>p\<in>set ics. length ws \<le> fst p)"
proof (induction ics arbitrary: loss calls)
  case Nil
  then show ?case by simp
next
  case (Cons p ics)
  obtain j crit where p: "p = (j, crit)" by (cases p)
  show ?case
    using Cons.IH [of loss calls]
      Cons.IH [of "loss[j := fdiv (ws ! j * crit out y) T0]" "calls @ [j]"]
    by (auto simp: p)
qed

lemma ragged_loop_Inl:
  "fst (ragged_loop ws y out T_ys ics loss calls) = Inl e \<longleftrightarrow>
     e = IndexError \<and> (\<exists>p\<in>set ics. length ws \<le> fst p)"
proof (induction ics arbitrary: loss calls)
  case Nil
  then show ?case by simp
next
  case (Cons p ics)
  obtain j crit where p: "p = (j, crit)" by (cases p)
  let ?items = "zip T_ys (zip (unbind y) (unbind out))"
  show ?case
    using Cons.IH [of loss calls]
      Cons.IH [of "loss[j := fl_scale (ragged_items crit (loss ! j) ?items) (ws ! j)]"
        "calls @ replicate (length ?items) j"]
    by (auto simp: p)
qed

lemma enumerate_index_out:
  "(\<exists>p\<in>set (enumerate 0 crits). length ws \<le> fst p) \<longleftrightarrow> length ws < length crits"
proof
  assume "\<exists>p\<in>set (enumerate 0 crits). length ws \<le> fst p"
  then show "length ws < length crits"
    by (auto simp: enumerate_eq_zip in_set_zip)
next
  assume l: "length ws < length crits"
  then have "(length ws, crits ! length ws) \<in> set (enumerate 0 crits)"
    by (simp add: in_set_enumerate_eq)
  then show "\<exists>p\<in>set (enumerate 0 crits). length ws \<le> fst p"
    by force
qed

text \<open>
  Claim C6, as the code has it. The loss computation checks neither the number of lengths
  against the batch size nor the sign of a length. With criteria that return, it raises
  exactly when \<^verbatim>\<open>T_ys\<close> is empty (\<^verbatim>\<open>T_ys[0]\<close>) or when there are fewer weights than
  criteria (\<^verbatim>\<open>hp.weight_loss[i]\<close>), with an \<open>IndexError\<close> in both cases.
\<close>

theorem calc_loss_raises_iff:
  "calc_loss ws crits y out T_ys = Inl e \<longleftrightarrow>
     e = IndexError \<and> (T_ys = [] \<or> length ws < length crits)"
  using fast_loop_Inl [of ws y out "hd T_ys" "enumerate 0 crits" "zeros (length crits)" "[]" e]
    ragged_loop_Inl [of ws y out T_ys "enumerate 0 crits" "zeros (length crits)" "[]" e]
    enumerate_index_out [of crits ws]
  by (auto simp: calc_loss_def calc_loss_log_def calc_loss_fast_def calc_loss_ragged_def)

theorem calc_loss_raises_iff_witness:
  "calc_loss [1] [l1_loss] (const_tensor [1, 1, 3] 0) (const_tensor [1, 1, 3] 1) []
     = Inl IndexError \<and>
   calc_loss [] [l1_loss] (const_tensor [1, 1, 3] 0) (const_tensor [1, 1, 3] 1) [3]
     = Inl IndexError \<and>
   calc_loss [1] [l1_loss] (const_tensor [1, 1, 3] 0) (const_tensor [1, 1, 3] 1) [3]
     \<noteq> Inl IndexError"
  using calc_loss_raises_iff [of "[1]" "[l1_loss]" "const_tensor [1, 1, 3] 0"
      "const_tensor [1, 1, 3] 1" "[]" IndexError]
    calc_loss_raises_iff [of "[]" "[l1_loss]" "const_tensor [1, 1, 3] 0"
      "const_tensor [1, 1, 3] 1" "[3]" IndexError]
    calc_loss_raises_iff [of "[1]" "[l1_loss]" "const_tensor [1, 1, 3] 0"
      "const_tensor [1, 1, 3] 1" "[3]" IndexError]
  by simp

text \<open>
  Claim C6 as stated fails. With two lengths for a batch of one sample the fast path
  reads only \<^verbatim>\<open>T_ys[0]\<close> and the ragged path zips to the shortest argument: both
  return. A length of zero divides by zero, which gives a non-finite slot and no
  exception; a negative length slices from the end and divides by the negative number.
\<close>

theorem calc_loss_no_check_counterexample:
  "hd (shape (const_tensor [1, 1, 3] 0)) = 1 \<and> length [3, 3 :: int] = 2 \<and>
   calc_loss [1] [l1_loss] (const_tensor [1, 1, 3] 0) (const_tensor [1, 1, 3] 1) [3, 3]
     = Inr [Fin 1] \<and>
   calc_loss [1] [l1_loss] (const_tensor [1, 1, 3] 0) (const_tensor [1, 1, 3] 1) [3, 2]
     = Inr [Fin 1] \<and>
   calc_loss [1] [l1_loss] (const_tensor [2, 1, 3] 0) (const_tensor [2, 1, 3] 1) [0, 2]
     = Inr [NonFinite] \<and>
   calc_loss [1] [l1_loss] (const_tensor [2, 1, 3] 0) (const_tensor [2, 1, 3] 1) [0, 0]
     = Inr [NonFinite] \<and>
   calc_loss [1] [l1_loss] (const_tensor [2, 1, 3] 0) (const_tensor [2, 1, 3] 1) [- 1, 2]
     = Inr [Fin (- 1)]"
  by (simp add: ev)

subsection \<open>The fast path and the ragged path\<close>














section \<open>Properties of \<^verbatim>\<open>validate\<close>\<close>

lemma validate_batches_mode:
  "validate_batches E hp epoch bs avg s = (r, avg', s') \<Longrightarrow>
   mode s' = mode s \<and>
   (\<exists>evs. events s' = events s @ evs \<and> (\<forall>m. ModelCall m \<in> set evs \<longrightarrow> m = mode s))"
proof (induction bs arbitrary: avg s)
  case Nil
  then show ?case by simp
next
  case (Cons b bs)
  obtain i_iter data where b: "b = (i_iter, data)" by (cases b)
  let ?s1 = "s\<lparr>events := events s @ [ModelCall (mode s)]\<rparr>"
  show ?case
  proof (cases "forward E (params s) (mode s) (data_x data)")
    case (Inl e)
    with Cons.prems b show ?thesis by auto
  next
    case (Inr outp)
    show ?thesis
    proof (cases "calc_loss (weight_loss hp) (criterions E) (data_y data) outp (data_T_ys data)")
      case (Inl e)
      with Cons.prems b Inr show ?thesis by auto
    next
      case loss: (Inr loss)
      let ?s2 = "?s1\<lparr>events := events ?s1
                   @ [Postfix (vdiv loss (int (length (data_T_ys data))))]\<rparr>"
      let ?s3 = "?s2\<lparr>events := events ?s2 @ [WriteOne epoch]\<rparr>"
      show ?thesis
      proof (cases "i_iter = 0 \<and> (length (shape outp) < 3 \<or> hd (shape outp) = 0)")
        case True
        with Cons.prems b Inr loss show ?thesis by (auto simp: Let_def)
      next
        case False
        then consider (first) "i_iter = 0" "\<not> length (shape outp) < 3" "hd (shape outp) \<noteq> 0"
          | (later) "i_iter \<noteq> 0"
          by auto
        then show ?thesis
        proof cases
          case first
          with Cons.prems b Inr loss
          have "validate_batches E hp epoch bs (vadd avg loss) ?s3 = (r, avg', s')"
            by (simp add: Let_def)
          from Cons.IH [OF this] show ?thesis by auto
        next
          case later
          with Cons.prems b Inr loss
          have "validate_batches E hp epoch bs (vadd avg loss) ?s2 = (r, avg', s')"
            by (simp add: Let_def)
          from Cons.IH [OF this] show ?thesis by auto
        qed
      qed
    qed
  qed
qed

text \<open>
  Claim C7, as the code has it. Validation puts the model into evaluation mode: every
  model call it makes is made in that mode. When validation returns, the model is back in
  training mode. When an exception ends it, \<^verbatim>\<open>self.model.train()\<close> is not reached and
  the model is left in evaluation mode.
\<close>

theorem validate_mode:
  assumes "validate E hp ld epoch s = (r, s')"
  shows "(case r of Inr avg \<Rightarrow> mode s' = Train | Inl e \<Rightarrow> mode s' = Eval) \<and>
         (\<exists>evs. events s' = events s @ evs \<and> ModelCall Train \<notin> set evs)"
proof -
  let ?s0 = "s\<lparr>mode := Eval\<rparr>"
  obtain ro avg s1 where vb:
    "validate_batches E hp epoch (enumerate 0 (batches ld)) (zeros (length (criterions E))) ?s0
       = (ro, avg, s1)"
    by (metis prod_cases3)
  from validate_batches_mode [OF vb] obtain evs where
    m: "mode s1 = Eval" and e: "events s1 = events s @ evs"
    and c: "\<forall>m. ModelCall m \<in> set evs \<longrightarrow> m = Eval"
    by auto
  from c have nt: "ModelCall Train \<notin> set evs" by auto
  show ?thesis
  proof (cases ro)
    case None
    with assms vb m e nt show ?thesis
      by (auto simp: validate_def Let_def loss_scalars_def)
  next
    case (Some err)
    with assms vb m e nt show ?thesis
      by (auto simp: validate_def)
  qed
qed

theorem validate_mode_witness:
  "validate echo_env (hp_example 5 1) \<lparr>batches = [batch_example 5 [5]], dataset_len = 1\<rparr>
     0 state0
     = (Inr [Fin 1], \<lparr>params = (), mode = Train,
          events = [ModelCall Eval, Postfix [Fin 1], WriteOne 0,
                    AddScalar ''loss/valid'' (Fin 1) 0]\<rparr>) \<and>
   mode (snd (validate echo_env (hp_example 5 1)
                \<lparr>batches = [batch_example 5 [5]], dataset_len = 1\<rparr> 0 state0)) = Train"
proof -
  have e: "validate echo_env (hp_example 5 1)
             \<lparr>batches = [batch_example 5 [5]], dataset_len = 1\<rparr> 0 state0
           = (Inr [Fin 1], \<lparr>params = (), mode = Train,
                events = [ModelCall Eval, Postfix [Fin 1], WriteOne 0,
                          AddScalar ''loss/valid'' (Fin 1) 0]\<rparr>)"
    by (simp add: ev_train)
  from validate_mode [OF e] e show ?thesis by simp
qed

text \<open>
  Claim C7 as stated fails: the restoration is not guaranteed on an exceptional exit. With
  a model whose call raises, validation started in training mode ends with the exception
  and the model in evaluation mode.
\<close>

theorem validate_exception_counterexample:
  "mode state0 = Train \<and>
   validate failing_env (hp_example 5 1)
     \<lparr>batches = [batch_example 5 [5]], dataset_len = 1\<rparr> 0 state0
     = (Inl RuntimeError, \<lparr>params = (), mode = Eval, events = [ModelCall Eval]\<rparr>) \<and>
   mode (snd (validate failing_env (hp_example 5 1)
                \<lparr>batches = [batch_example 5 [5]], dataset_len = 1\<rparr> 0 state0)) \<noteq> Train"
  by (simp add: ev_train)

section \<open>Properties of the training loop\<close>

subsection \<open>A first window that is too short\<close>






text \<open>
  Claim C4. The stop at a window that is too short is meant to be silent. For a batch whose
  padded length is 3 the stop comes at the first window: there is no model call and no
  optimizer step, but the batch ends with an \<open>AttributeError\<close> of the progress report.
\<close>

theorem degenerate_window_not_silent:
  "train_batch echo_env (hp_example 16 1) 1 0 0 (batch_example 3 [3]) [Fin 0] state0
     = (Some AttributeError, [Fin 0],
        \<lparr>params = (), mode = Train, events = [ZeroGrad, SchedStep 0]\<rparr>)"
  by (simp add: ev_train)

subsection \<open>The progress report\<close>




subsection \<open>The running loss of an epoch\<close>

text \<open>
  Claim C3. The accumulator is created once, before the loop over the epochs, and the
  division at the end of an epoch is done in place: the next epoch starts from the average
  of the previous one. Two epochs over the same single sample, each with one window of
  loss 1 and a training set of size 1, report the averages 1 and 2.
\<close>

theorem running_loss_not_reset:
  "\<exists>s. train echo_env (hp_example 5 2) \<lparr>batches = [batch_example 5 [5]], dataset_len = 1\<rparr>
          \<lparr>batches = [batch_example 5 [5]], dataset_len = 1\<rparr> 0 state0 = (None, s) \<and>
       train_scalars (events s) = [(0, Fin 1), (1, Fin 2)] \<and>
       events s =
         [ZeroGrad, ModelCall Train, Backward, OptStep, SchedStep 0, Postfix [Fin 1],
          AddScalar ''loss/train'' (Fin 1) 0,
          ModelCall Eval, Postfix [Fin 1], WriteOne 0, AddScalar ''loss/valid'' (Fin 1) 0,
          ZeroGrad, ModelCall Train, Backward, OptStep, SchedStep 1, Postfix [Fin 1],
          AddScalar ''loss/train'' (Fin 2) 1,
          ModelCall Eval, Postfix [Fin 1], WriteOne 1, AddScalar ''loss/valid'' (Fin 1) 1,
          WriterClose]"
  by (simp add: ev_train)

end
